theory Spec2Isabelle
  imports Main "HOL-Library.Word" "HOL-Library.Sublist"
begin

section \<open>The document service of \<open>main.py\<close>\<close>

text \<open>
  \<open>main.py\<close> has two request handlers, \<open>upload_file\<close> (POST /upload/) and
  \<open>get_document\<close> (GET /document/{part_number}). Both work on two stores outside the
  process: the table \<open>documents\<close> of the relational database and one S3 bucket. The
  model passes both stores explicitly, as one \<open>state\<close>, and returns the new state next
  to the handler's result. An exception leaving a handler is the \<open>Inl\<close> of the result.

  What the S3 SDK answers is not decided by the program: it is the parameter \<open>env\<close>.
  The database is a table that is always reachable; the only error it raises is the
  violation of the \<open>unique\<close> constraint on \<open>part_number\<close>.
\<close>

subsection \<open>Data\<close>

type_synonym bytes = "8 word list"

text \<open>The row class \<open>Document\<close> (lines 30-36). The primary key \<open>id\<close> is \<open>id_col\<close> here.\<close>

record Document =
  id_col :: nat
  part_number :: string
  file_name :: string
  s3_key :: string

text \<open>
  The \<open>UploadFile\<close> of a request: the \<open>filename\<close> of the multipart part and the
  bytes its \<open>file\<close> object yields (\<open>file_data\<close>). The framework builds an
  \<open>UploadFile\<close> only from a part that carries a filename, so \<open>filename\<close> is a
  string (it may be empty).
\<close>

record UploadFile =
  filename :: string
  file_data :: bytes

text \<open>
  Exceptions. The SDK raises \<open>ClientError\<close> (carrying the text \<open>str(e)\<close>) or some
  other exception; the handlers raise \<open>HTTPException(status_code, detail)\<close>; the
  database raises \<open>IntegrityError\<close> on a commit that breaks a constraint.
\<close>

datatype s3_exn = ClientError string | OtherSDKError string

datatype exn = HTTPException nat string | S3Exn s3_exn | IntegrityError

text \<open>
  The handlers return Python dicts with string keys and string values, in the order
  written: an association list.
\<close>

type_synonym response = "(string \<times> string) list"

text \<open>
  A log of the calls to the two stores, in the order they are made. The program keeps no
  such log: it is there to state in which order a handler reaches the stores.
  \<open>S3_upload_fileobj k ok\<close> is the call of line 75 for key \<open>k\<close> and whether it
  returned; \<open>DB_commit p ok\<close> the \<open>db.add\<close>/\<open>db.commit\<close> of lines 79-80;
  \<open>DB_query p\<close> the query of line 91; \<open>S3_generate_presigned_url k ok\<close> the call of
  line 96.
\<close>

datatype event =
    S3_upload_fileobj string bool
  | DB_commit string bool
  | DB_query string
  | S3_generate_presigned_url string bool

record state =
  documents :: "Document list"
  bucket :: "string \<rightharpoonup> bytes"
  trace :: "event list"

text \<open>
  The environment of one request: the configured bucket name and what the S3 client
  does. \<open>upload_fileobj env data bucket key\<close> is \<open>None\<close> when the upload returns and
  \<open>Some e\<close> when it raises \<open>e\<close>; \<open>generate_presigned_url env bucket key expires\<close>
  is the URL, or the exception raised.
\<close>

record env =
  BUCKET_NAME :: string
  upload_fileobj :: "bytes \<Rightarrow> string \<Rightarrow> string \<Rightarrow> s3_exn option"
  generate_presigned_url :: "string \<Rightarrow> string \<Rightarrow> nat \<Rightarrow> s3_exn + string"

subsection \<open>The database session\<close>

text \<open>
  \<open>db.query(Document).filter(Document.part_number == part_number).first()\<close>: the first
  row with that part number, or \<open>None\<close>.
\<close>

definition query_first :: "Document list \<Rightarrow> string \<Rightarrow> Document option" where
  "query_first tbl pn = find (\<lambda>d. part_number d = pn) tbl"

text \<open>The database assigns the key of a new row: one more than the largest in use.\<close>

definition next_id :: "Document list \<Rightarrow> nat" where
  "next_id tbl = Suc (foldr max (map id_col tbl) 0)"

text \<open>
  \<open>db.add(Document(part_number=..., file_name=..., s3_key=...)); db.commit()\<close>. The
  column \<open>part_number\<close> is declared \<open>unique=True\<close> (line 34): the commit of a second
  row with a part number already in the table raises \<open>IntegrityError\<close> and leaves the
  table as it was.
\<close>

definition add_commit ::
  "Document list \<Rightarrow> string \<Rightarrow> string \<Rightarrow> string \<Rightarrow> exn + Document list" where
  "add_commit tbl pn fn key =
     (if pn \<in> set (map part_number tbl) then Inl IntegrityError
      else Inr (tbl @ [\<lparr>id_col = next_id tbl, part_number = pn, file_name = fn, s3_key = key\<rparr>]))"

subsection \<open>The handlers\<close>

text \<open>
  \<open>except ClientError as e: raise HTTPException(status_code=500, detail=str(e))\<close>
  (lines 83-84 and 101-102): a \<open>ClientError\<close> becomes an \<open>HTTPException\<close> with status
  500, every other exception passes.
\<close>

fun except_ClientError :: "exn \<Rightarrow> exn" where
  "except_ClientError (S3Exn (ClientError msg)) = HTTPException 500 msg"
| "except_ClientError e = e"

text \<open>The f-string of line 74: \<open>f"documents/{part_number}/{file.filename}"\<close>.\<close>

definition s3_key_of :: "string \<Rightarrow> string \<Rightarrow> string" where
  "s3_key_of pn fn = ''documents/'' @ pn @ ''/'' @ fn"

definition log :: "state \<Rightarrow> event list \<Rightarrow> state" where
  "log st evs = st\<lparr>trace := trace st @ evs\<rparr>"

text \<open>
  \<open>upload_file\<close> (lines 68-84). The parameter \<open>part_number: str = None\<close> is a
  \<open>string option\<close>; \<open>not part_number\<close> holds for \<open>None\<close> and for the empty string.
\<close>

definition upload_file ::
  "env \<Rightarrow> state \<Rightarrow> UploadFile \<Rightarrow> string option \<Rightarrow> (exn + response) \<times> state" where
  "upload_file env st f part_number_arg =
     (case part_number_arg of
        None \<Rightarrow> (Inl (HTTPException 400 ''Part number is required''), st)
      | Some pn \<Rightarrow>
          if pn = [] then (Inl (HTTPException 400 ''Part number is required''), st)
          else
            let key = s3_key_of pn (filename f) in
            (case upload_fileobj env (file_data f) (BUCKET_NAME env) key of
               Some e \<Rightarrow>
                 (Inl (except_ClientError (S3Exn e)), log st [S3_upload_fileobj key False])
             | None \<Rightarrow>
                 let st1 = log (st\<lparr>bucket := (bucket st)(key \<mapsto> file_data f)\<rparr>)
                             [S3_upload_fileobj key True]
                 in (case add_commit (documents st1) pn (filename f) key of
                       Inl e \<Rightarrow> (Inl (except_ClientError e), log st1 [DB_commit pn False])
                     | Inr tbl \<Rightarrow>
                         (Inr [(''message'', ''File uploaded successfully''),
                               (''part_number'', pn)],
                          log (st1\<lparr>documents := tbl\<rparr>) [DB_commit pn True]))))"

text \<open>
  \<open>get_document\<close> (lines 87-102). The \<open>HTTPException\<close> of line 93 is raised inside the
  \<open>try\<close>; it is no \<open>ClientError\<close> and leaves the handler as it is.
\<close>

definition get_document :: "env \<Rightarrow> state \<Rightarrow> string \<Rightarrow> (exn + response) \<times> state" where
  "get_document env st pn =
     (let st1 = log st [DB_query pn] in
      case query_first (documents st) pn of
        None \<Rightarrow> (Inl (except_ClientError (HTTPException 404 ''Document not found'')), st1)
      | Some document \<Rightarrow>
          (case generate_presigned_url env (BUCKET_NAME env) (s3_key document) 3600 of
             Inl e \<Rightarrow>
               (Inl (except_ClientError (S3Exn e)),
                log st1 [S3_generate_presigned_url (s3_key document) False])
           | Inr url \<Rightarrow>
               (Inr [(''file_name'', file_name document), (''download_url'', url)],
                log st1 [S3_generate_presigned_url (s3_key document) True])))"

subsection \<open>The service as a whole\<close>

text \<open>
  The status the framework answers with: the status of an \<open>HTTPException\<close>, and 500
  (Internal Server Error) for any other exception that leaves a handler.
\<close>

fun status_code :: "exn \<Rightarrow> nat" where
  "status_code (HTTPException c d) = c"
| "status_code e = 500"

text \<open>
  The two routes. \<open>POST_upload f pn\<close> is a request to \<open>/upload/\<close> (line 68) with the
  file part \<open>f\<close> and the query parameter \<open>part_number\<close>, if any: a query parameter
  carries any string. \<open>GET_document seg\<close> is a GET request for the path
  \<open>/document/\<close> followed by \<open>seg\<close>. The route of line 87,
  \<open>/document/{part_number}\<close>, has a plain path parameter: it matches one non-empty
  path segment, with no \<open>/\<close> in it. A path that matches no route never reaches
  \<open>get_document\<close>: the router answers it with status 404, detail \<open>Not Found\<close>, and
  neither store is touched.
\<close>

datatype request = POST_upload UploadFile "string option" | GET_document string

definition path_param :: "string \<Rightarrow> bool" where
  "path_param seg = (seg \<noteq> [] \<and> CHR ''/'' \<notin> set seg)"

definition handle :: "env \<Rightarrow> state \<Rightarrow> request \<Rightarrow> (exn + response) \<times> state" where
  "handle env st rq =
     (case rq of
        POST_upload f pn \<Rightarrow> upload_file env st f pn
      | GET_document seg \<Rightarrow>
          if path_param seg then get_document env st seg
          else (Inl (HTTPException 404 ''Not Found''), st))"

text \<open>A run of the service over a sequence of requests.\<close>

fun run :: "state \<Rightarrow> (env \<times> request) list \<Rightarrow> state" where
  "run st [] = st"
| "run st ((env, rq) # rs) = run (snd (handle env st rq)) rs"

definition empty_state :: state where
  "empty_state = \<lparr>documents = [], bucket = Map.empty, trace = []\<rparr>"

text \<open>Predicates on the log.\<close>

fun is_DB_commit :: "event \<Rightarrow> bool" where
  "is_DB_commit (DB_commit p ok) = True"
| "is_DB_commit e = False"

fun is_S3_call :: "event \<Rightarrow> bool" where
  "is_S3_call (S3_upload_fileobj k ok) = True"
| "is_S3_call (S3_generate_presigned_url k ok) = True"
| "is_S3_call e = False"

text \<open>Concrete inputs for the examples below.\<close>

definition env_ok :: env where
  "env_ok = \<lparr>BUCKET_NAME = ''docs-bucket'',
             upload_fileobj = (\<lambda>data b k. None),
             generate_presigned_url = (\<lambda>b k ttl. Inr (''https://'' @ b @ ''.s3/'' @ k))\<rparr>"

definition env_down :: env where
  "env_down = \<lparr>BUCKET_NAME = ''docs-bucket'',
               upload_fileobj = (\<lambda>data b k. Some (ClientError ''AccessDenied'')),
               generate_presigned_url = (\<lambda>b k ttl. Inl (ClientError ''AccessDenied''))\<rparr>"

definition spec_pdf :: UploadFile where
  "spec_pdf = \<lparr>filename = ''spec.pdf'', file_data = [0x25, 0x50, 0x44, 0x46]\<rparr>"

definition other_pdf :: UploadFile where
  "other_pdf = \<lparr>filename = ''other.pdf'', file_data = [0x25, 0x50]\<rparr>"

definition file_c :: UploadFile where
  "file_c = \<lparr>filename = ''c'', file_data = [1]\<rparr>"

definition file_bc :: UploadFile where
  "file_bc = \<lparr>filename = ''b/c'', file_data = [2]\<rparr>"

text \<open>The state after \<open>spec.pdf\<close> has been uploaded as \<open>PN-100\<close> to the empty service.\<close>

definition st_pn100 :: state where
  "st_pn100 = snd (upload_file env_ok empty_state spec_pdf (Some ''PN-100''))"

section \<open>Properties\<close>

subsection \<open>Auxiliary facts\<close>

lemmas handler_defs =
  upload_file_def get_document_def log_def add_commit_def query_first_def Let_def

lemma status_code_except_S3Exn: "status_code (except_ClientError (S3Exn e)) = 500"
  by (cases e) simp_all

lemma find_part_number_None:
  "pn \<notin> set (map part_number tbl) \<Longrightarrow> find (\<lambda>d. part_number d = pn) tbl = None"
  by (induction tbl) auto

lemma find_append_new:
  "pn \<notin> set (map part_number tbl) \<Longrightarrow> part_number d = pn \<Longrightarrow>
   find (\<lambda>d. part_number d = pn) (tbl @ [d]) = Some d"
  by (induction tbl) auto

lemma st_pn100_documents:
  "documents st_pn100 =
     [\<lparr>id_col = 1, part_number = ''PN-100'', file_name = ''spec.pdf'',
       s3_key = ''documents/PN-100/spec.pdf''\<rparr>]"
  by (simp add: st_pn100_def handler_defs s3_key_of_def next_id_def env_ok_def
      empty_state_def spec_pdf_def)

subsection \<open>Upload without a part number\<close>

text \<open>
  C3. An upload whose \<open>part_number\<close> is absent or the empty string raises
  \<open>HTTPException\<close> with status 400 and reaches neither store: the state after the
  request, log of calls included, is the state before it.
\<close>

theorem upload_without_part_number:
  "upload_file env st f None = (Inl (HTTPException 400 ''Part number is required''), st) \<and>
   upload_file env st f (Some '''') = (Inl (HTTPException 400 ''Part number is required''), st) \<and>
   status_code (HTTPException 400 ''Part number is required'') = 400"
  by (simp add: upload_file_def)

subsection \<open>Upload, then lookup\<close>

text \<open>
  C1, as amended. Take a non-empty \<open>part_number\<close> with no \<open>/\<close> in it and no record
  in the table, and an upload request whose S3 write returns. The upload answers exactly
  \<open>{message: "File uploaded successfully", part_number: <the part number>}\<close>. A
  lookup request \<open>GET /document/<part_number>\<close>, in the state the upload leaves and
  for which the S3 client issues the URL \<open>url\<close> for the key
  \<open>documents/<part_number>/<file_name>\<close>, answers the original file name and that
  URL; and the bucket holds the uploaded bytes under that key.
\<close>

theorem upload_then_lookup:
  assumes "pn \<noteq> []"
    and "CHR ''/'' \<notin> set pn"
    and "pn \<notin> set (map part_number (documents st))"
    and "upload_fileobj env (file_data f) (BUCKET_NAME env)
           (''documents/'' @ pn @ ''/'' @ filename f) = None"
    and "generate_presigned_url env' (BUCKET_NAME env')
           (''documents/'' @ pn @ ''/'' @ filename f) 3600 = Inr url"
  shows "fst (handle env st (POST_upload f (Some pn))) =
           Inr [(''message'', ''File uploaded successfully''), (''part_number'', pn)] \<and>
         fst (handle env' (snd (handle env st (POST_upload f (Some pn)))) (GET_document pn)) =
           Inr [(''file_name'', filename f), (''download_url'', url)] \<and>
         bucket (snd (handle env st (POST_upload f (Some pn))))
           (''documents/'' @ pn @ ''/'' @ filename f) = Some (file_data f)"
  using assms
  by (simp add: handle_def path_param_def handler_defs s3_key_of_def find_append_new)

theorem upload_then_lookup_witness:
  "fst (handle env_ok empty_state (POST_upload spec_pdf (Some ''PN-100''))) =
     Inr [(''message'', ''File uploaded successfully''), (''part_number'', ''PN-100'')] \<and>
   fst (handle env_ok (snd (handle env_ok empty_state (POST_upload spec_pdf (Some ''PN-100''))))
          (GET_document ''PN-100'')) =
     Inr [(''file_name'', ''spec.pdf''),
          (''download_url'', ''https://docs-bucket.s3/documents/PN-100/spec.pdf'')] \<and>
   bucket (snd (handle env_ok empty_state (POST_upload spec_pdf (Some ''PN-100''))))
     ''documents/PN-100/spec.pdf'' = Some [0x25, 0x50, 0x44, 0x46]"
  using upload_then_lookup [of "''PN-100''" empty_state env_ok spec_pdf env_ok
      "''https://docs-bucket.s3/documents/PN-100/spec.pdf''"]
  by (simp add: env_ok_def empty_state_def spec_pdf_def)

text \<open>
  The claim as first stated takes every non-empty part number. The upload accepts
  \<open>a/b\<close>, which has no record in the empty table, and answers success; the lookup
  request for \<open>/document/a/b\<close> matches no route and is answered 404, although the
  record is in the table and the S3 client would issue the URL.
\<close>

theorem upload_then_lookup_slash:
  "''a/b'' \<noteq> [] \<and>
   ''a/b'' \<notin> set (map part_number (documents empty_state)) \<and>
   fst (handle env_ok empty_state (POST_upload file_c (Some ''a/b''))) =
     Inr [(''message'', ''File uploaded successfully''), (''part_number'', ''a/b'')] \<and>
   map part_number (documents (snd (handle env_ok empty_state (POST_upload file_c (Some ''a/b''))))) =
     [''a/b''] \<and>
   generate_presigned_url env_ok (BUCKET_NAME env_ok) ''documents/a/b/c'' 3600 =
     Inr ''https://docs-bucket.s3/documents/a/b/c'' \<and>
   fst (handle env_ok (snd (handle env_ok empty_state (POST_upload file_c (Some ''a/b''))))
          (GET_document ''a/b'')) =
     Inl (HTTPException 404 ''Not Found'')"
  by (simp add: handle_def path_param_def handler_defs s3_key_of_def env_ok_def
      empty_state_def file_c_def)

subsection \<open>Upload under a part number already in the table\<close>

text \<open>
  C2, as amended. An upload whose non-empty \<open>part_number\<close> already has a record never
  succeeds, and its outcome has status 500, not a 4xx status: when the S3 write returns,
  the commit raises \<open>IntegrityError\<close>, which the handler does not catch; when the S3
  write raises, the outcome is that of the storage error. The table is as before, and a
  lookup of the part number answers after the failed upload what it answered before.
\<close>

theorem duplicate_upload_fails:
  assumes "pn \<noteq> []" and "pn \<in> set (map part_number (documents st))"
  shows "(\<exists>e. fst (upload_file env st f (Some pn)) = Inl e \<and> status_code e = 500) \<and>
         (upload_fileobj env (file_data f) (BUCKET_NAME env) (s3_key_of pn (filename f)) = None
            \<longrightarrow> fst (upload_file env st f (Some pn)) = Inl IntegrityError) \<and>
         documents (snd (upload_file env st f (Some pn))) = documents st \<and>
         fst (get_document env' (snd (upload_file env st f (Some pn))) pn) =
           fst (get_document env' st pn)"
  using assms
  by (auto simp add: handler_defs status_code_except_S3Exn split: option.splits sum.splits)

theorem duplicate_upload_fails_witness:
  "fst (upload_file env_ok st_pn100 other_pdf (Some ''PN-100'')) = Inl IntegrityError \<and>
   documents (snd (upload_file env_ok st_pn100 other_pdf (Some ''PN-100''))) =
     documents st_pn100 \<and>
   fst (get_document env_ok (snd (upload_file env_ok st_pn100 other_pdf (Some ''PN-100'')))
          ''PN-100'') =
     Inr [(''file_name'', ''spec.pdf''),
          (''download_url'', ''https://docs-bucket.s3/documents/PN-100/spec.pdf'')]"
proof -
  have g: "fst (get_document env_ok st_pn100 ''PN-100'') =
     Inr [(''file_name'', ''spec.pdf''),
          (''download_url'', ''https://docs-bucket.s3/documents/PN-100/spec.pdf'')]"
    by (simp add: get_document_def query_first_def log_def st_pn100_documents env_ok_def)
  have u: "upload_fileobj env_ok (file_data other_pdf) (BUCKET_NAME env_ok)
             (s3_key_of ''PN-100'' (filename other_pdf)) = None"
    by (simp add: env_ok_def)
  have m: "''PN-100'' \<in> set (map part_number (documents st_pn100))"
    by (simp add: st_pn100_documents)
  from duplicate_upload_fails [of "''PN-100''" st_pn100 env_ok other_pdf env_ok] m u g
  show ?thesis by simp
qed

text \<open>
  The claim as first stated asks for a 4xx outcome. With \<open>PN-100\<close> in the table, a
  second upload under \<open>PN-100\<close> whose S3 write returns leaves the handler with the
  uncaught \<open>IntegrityError\<close>, answered with status 500.
\<close>

theorem duplicate_upload_not_4xx:
  "''PN-100'' \<in> set (map part_number (documents st_pn100)) \<and>
   fst (upload_file env_ok st_pn100 other_pdf (Some ''PN-100'')) = Inl IntegrityError \<and>
   status_code IntegrityError = 500 \<and>
   \<not> (400 \<le> status_code IntegrityError \<and> status_code IntegrityError < 500)"
  by (simp add: handler_defs st_pn100_documents env_ok_def)

subsection \<open>The storage key\<close>

text \<open>
  C4. For an upload with the non-empty part number \<open>p\<close> and the filename \<open>f\<close> whose
  S3 write returns, the bucket changes at the key \<open>"documents/" + p + "/" + f\<close> and
  nowhere else, and holds the uploaded bytes there; and the record the upload adds to the
  table (when \<open>p\<close> had none) carries the same string as its \<open>s3_key\<close>.
\<close>

theorem storage_key_is_concatenation:
  assumes "pn \<noteq> []"
    and "upload_fileobj env (file_data f) (BUCKET_NAME env)
           (''documents/'' @ pn @ ''/'' @ filename f) = None"
  shows "bucket (snd (upload_file env st f (Some pn))) =
           (bucket st)(''documents/'' @ pn @ ''/'' @ filename f \<mapsto> file_data f) \<and>
         (pn \<notin> set (map part_number (documents st)) \<longrightarrow>
            documents (snd (upload_file env st f (Some pn))) =
              documents st @ [\<lparr>id_col = next_id (documents st), part_number = pn,
                               file_name = filename f,
                               s3_key = ''documents/'' @ pn @ ''/'' @ filename f\<rparr>])"
  using assms
  by (simp add: handler_defs s3_key_of_def)

theorem storage_key_is_concatenation_witness:
  "bucket (snd (upload_file env_ok empty_state spec_pdf (Some ''PN-100''))) =
     Map.empty(''documents/PN-100/spec.pdf'' \<mapsto> [0x25, 0x50, 0x44, 0x46]) \<and>
   documents (snd (upload_file env_ok empty_state spec_pdf (Some ''PN-100''))) =
     [\<lparr>id_col = 1, part_number = ''PN-100'', file_name = ''spec.pdf'',
       s3_key = ''documents/PN-100/spec.pdf''\<rparr>]"
  using storage_key_is_concatenation [of "''PN-100''" env_ok spec_pdf empty_state]
  by (simp add: env_ok_def empty_state_def spec_pdf_def next_id_def)

text \<open>
  C9. The key is not an injective function of part number and filename: a \<open>/\<close> in
  either is copied as it is. The pairs \<open>("a/b", "c")\<close> and \<open>("a", "b/c")\<close> differ and
  give the same key. Uploaded one after the other, both uploads succeed, both records
  name the key \<open>documents/a/b/c\<close>, and the bucket holds one object, with the bytes of
  the second upload in place of those of the first.
\<close>

theorem storage_key_not_injective:
  "(''a/b'', ''c'') \<noteq> (''a'', ''b/c'') \<and>
   s3_key_of ''a/b'' ''c'' = s3_key_of ''a'' ''b/c'' \<and>
   fst (upload_file env_ok empty_state file_c (Some ''a/b'')) =
     Inr [(''message'', ''File uploaded successfully''), (''part_number'', ''a/b'')] \<and>
   fst (upload_file env_ok (snd (upload_file env_ok empty_state file_c (Some ''a/b'')))
          file_bc (Some ''a'')) =
     Inr [(''message'', ''File uploaded successfully''), (''part_number'', ''a'')] \<and>
   bucket (snd (upload_file env_ok empty_state file_c (Some ''a/b''))) ''documents/a/b/c'' =
     Some [1] \<and>
   bucket (snd (upload_file env_ok (snd (upload_file env_ok empty_state file_c (Some ''a/b'')))
                  file_bc (Some ''a''))) =
     Map.empty(''documents/a/b/c'' \<mapsto> [2]) \<and>
   map s3_key (documents (snd (upload_file env_ok
       (snd (upload_file env_ok empty_state file_c (Some ''a/b''))) file_bc (Some ''a'')))) =
     [''documents/a/b/c'', ''documents/a/b/c'']"
  by (simp add: handler_defs s3_key_of_def env_ok_def empty_state_def file_c_def file_bc_def)

subsection \<open>Lookup\<close>

text \<open>
  C5. A lookup of a part number with no record raises \<open>HTTPException\<close> with status 404.
  The only call it has made by then is the query of the table: no call to S3 is in the
  log, and the outcome is the same whatever the S3 client would have answered.
\<close>

theorem lookup_unknown_not_found:
  assumes "pn \<notin> set (map part_number (documents st))"
  shows "get_document env st pn =
           (Inl (HTTPException 404 ''Document not found''),
            st\<lparr>trace := trace st @ [DB_query pn]\<rparr>) \<and>
         status_code (HTTPException 404 ''Document not found'') = 404 \<and>
         filter is_S3_call (drop (length (trace st)) (trace (snd (get_document env st pn)))) = []"
  using assms
  by (simp add: handler_defs find_part_number_None)

theorem lookup_unknown_not_found_witness:
  "get_document env_down st_pn100 ''PN-404'' =
     (Inl (HTTPException 404 ''Document not found''),
      st_pn100\<lparr>trace := trace st_pn100 @ [DB_query ''PN-404'']\<rparr>)"
  using lookup_unknown_not_found [of "''PN-404''" st_pn100 env_down]
  by (simp add: st_pn100_documents)

text \<open>
  C10. A lookup is read-only: whatever the part number and whatever the outcome (the
  answer, 404, or an error of the S3 client), the table and the bucket after it are the
  table and the bucket before it.
\<close>

theorem lookup_read_only:
  "documents (snd (get_document env st pn)) = documents st \<and>
   bucket (snd (get_document env st pn)) = bucket st"
  by (simp add: get_document_def log_def Let_def split: option.splits sum.splits)

subsection \<open>The two writes of an upload\<close>

text \<open>
  C7. When the S3 write of an upload returns and the insert into the table then fails,
  the upload fails with the error of the insert, and nothing is deleted from the bucket:
  the bucket after the upload is the bucket before it with the uploaded bytes under the
  derived key. The table is unchanged.
\<close>

theorem object_stays_after_failed_insert:
  assumes "pn \<noteq> []"
    and "upload_fileobj env (file_data f) (BUCKET_NAME env) (s3_key_of pn (filename f)) = None"
    and "add_commit (documents st) pn (filename f) (s3_key_of pn (filename f)) = Inl e"
  shows "fst (upload_file env st f (Some pn)) = Inl e \<and>
         bucket (snd (upload_file env st f (Some pn))) =
           (bucket st)(s3_key_of pn (filename f) \<mapsto> file_data f) \<and>
         bucket (snd (upload_file env st f (Some pn))) (s3_key_of pn (filename f)) =
           Some (file_data f) \<and>
         documents (snd (upload_file env st f (Some pn))) = documents st"
  using assms
  by (auto simp add: handler_defs split: if_splits)

theorem object_stays_after_failed_insert_witness:
  "fst (upload_file env_ok st_pn100 other_pdf (Some ''PN-100'')) = Inl IntegrityError \<and>
   bucket (snd (upload_file env_ok st_pn100 other_pdf (Some ''PN-100'')))
     ''documents/PN-100/other.pdf'' = Some [0x25, 0x50] \<and>
   documents (snd (upload_file env_ok st_pn100 other_pdf (Some ''PN-100''))) =
     documents st_pn100"
proof -
  have u: "upload_fileobj env_ok (file_data other_pdf) (BUCKET_NAME env_ok)
             (s3_key_of ''PN-100'' (filename other_pdf)) = None"
    by (simp add: env_ok_def)
  have a: "add_commit (documents st_pn100) ''PN-100'' (filename other_pdf)
             (s3_key_of ''PN-100'' (filename other_pdf)) = Inl IntegrityError"
    by (simp add: add_commit_def st_pn100_documents)
  from object_stays_after_failed_insert [OF _ u a]
  show ?thesis by (simp add: s3_key_of_def other_pdf_def)
qed

lemma commit_in_pair:
  "[a, b] = pre @ e # post \<Longrightarrow> is_DB_commit e \<Longrightarrow> \<not> is_DB_commit a \<Longrightarrow> a \<in> set pre"
  by (cases pre) auto

lemma commit_in_single:
  "[a] = pre @ e # post \<Longrightarrow> is_DB_commit e \<Longrightarrow> is_DB_commit a"
  by (cases pre) auto

text \<open>
  C6. The calls an upload makes are appended to the log in the order they are made. In
  every upload, each commit to the table (succeeded or failed) comes after an S3 write
  that has returned: no commit comes first, and none comes without one. When the S3 write
  raises, the upload fails with status 500 (an \<open>HTTPException\<close> with status 500 for a
  \<open>ClientError\<close>, the exception itself otherwise), the table is unchanged, and the
  failed S3 write is the only call made.
\<close>

theorem store_settled_before_metadata:
  "\<exists>evs. trace (snd (upload_file env st f pn)) = trace st @ evs \<and>
     (\<forall>pre e post. evs = pre @ e # post \<and> is_DB_commit e \<longrightarrow>
        (\<exists>k. S3_upload_fileobj k True \<in> set pre)) \<and>
     (\<forall>p x. pn = Some p \<and> p \<noteq> [] \<and>
        upload_fileobj env (file_data f) (BUCKET_NAME env) (s3_key_of p (filename f)) = Some x
        \<longrightarrow>
          fst (upload_file env st f pn) = Inl (except_ClientError (S3Exn x)) \<and>
          status_code (except_ClientError (S3Exn x)) = 500 \<and>
          documents (snd (upload_file env st f pn)) = documents st \<and>
          evs = [S3_upload_fileobj (s3_key_of p (filename f)) False])"
proof (cases pn)
  case None
  then show ?thesis by (simp add: upload_file_def)
next
  case (Some p)
  show ?thesis
  proof (cases "p = []")
    case True
    with Some show ?thesis by (simp add: upload_file_def)
  next
    case False
    let ?k = "s3_key_of p (filename f)"
    show ?thesis
    proof (cases "upload_fileobj env (file_data f) (BUCKET_NAME env) ?k")
      case (Some x)
      have "trace (snd (upload_file env st f pn)) = trace st @ [S3_upload_fileobj ?k False]"
        using \<open>pn = Some p\<close> False Some by (simp add: handler_defs)
      moreover have "\<forall>pre e post.
          [S3_upload_fileobj ?k False] = pre @ e # post \<and> is_DB_commit e \<longrightarrow>
          (\<exists>k. S3_upload_fileobj k True \<in> set pre)"
        using commit_in_single by fastforce
      moreover have "fst (upload_file env st f pn) = Inl (except_ClientError (S3Exn x))"
        and "documents (snd (upload_file env st f pn)) = documents st"
        using \<open>pn = Some p\<close> False Some by (simp_all add: handler_defs)
      ultimately show ?thesis
        using \<open>pn = Some p\<close> Some status_code_except_S3Exn by auto
    next
      case None
      obtain ok where tr: "trace (snd (upload_file env st f pn)) =
          trace st @ [S3_upload_fileobj ?k True, DB_commit p ok]"
        using \<open>pn = Some p\<close> False None
        by (cases "p \<in> set (map part_number (documents st))") (simp_all add: handler_defs)
      have "\<forall>pre e post.
          [S3_upload_fileobj ?k True, DB_commit p ok] = pre @ e # post \<and> is_DB_commit e \<longrightarrow>
          (\<exists>k. S3_upload_fileobj k True \<in> set pre)"
      proof (intro allI impI)
        fix pre e post
        assume "[S3_upload_fileobj ?k True, DB_commit p ok] = pre @ e # post \<and> is_DB_commit e"
        then have "S3_upload_fileobj ?k True \<in> set pre"
          using commit_in_pair [of "S3_upload_fileobj ?k True" "DB_commit p ok" pre e post]
          by simp
        then show "\<exists>k. S3_upload_fileobj k True \<in> set pre" by blast
      qed
      with tr show ?thesis
        using \<open>pn = Some p\<close> None by auto
    qed
  qed
qed

theorem store_settled_before_metadata_witness:
  "trace (snd (upload_file env_ok empty_state spec_pdf (Some ''PN-100''))) =
     [S3_upload_fileobj ''documents/PN-100/spec.pdf'' True, DB_commit ''PN-100'' True] \<and>
   upload_file env_down empty_state spec_pdf (Some ''PN-100'') =
     (Inl (HTTPException 500 ''AccessDenied''),
      empty_state\<lparr>trace := [S3_upload_fileobj ''documents/PN-100/spec.pdf'' False]\<rparr>)"
  using store_settled_before_metadata [of env_down empty_state spec_pdf "Some ''PN-100''"]
  by (simp add: handler_defs s3_key_of_def env_ok_def env_down_def empty_state_def spec_pdf_def)

subsection \<open>The table over a run of the service\<close>

lemma upload_file_documents:
  "documents (snd (upload_file env st f pn)) = documents st \<or>
   (\<exists>p d. pn = Some p \<and> p \<notin> set (map part_number (documents st)) \<and> part_number d = p \<and>
      fst (upload_file env st f pn) =
        Inr [(''message'', ''File uploaded successfully''), (''part_number'', p)] \<and>
      documents (snd (upload_file env st f pn)) = documents st @ [d])"
  by (auto simp add: handler_defs split: option.splits)

lemma get_document_documents: "documents (snd (get_document env st pn)) = documents st"
  by (simp add: get_document_def log_def Let_def split: option.splits sum.splits)

lemma handle_documents:
  "documents (snd (handle env st rq)) = documents st \<or>
   (\<exists>f p d. rq = POST_upload f (Some p) \<and> p \<notin> set (map part_number (documents st)) \<and>
      part_number d = p \<and>
      fst (handle env st rq) =
        Inr [(''message'', ''File uploaded successfully''), (''part_number'', p)] \<and>
      documents (snd (handle env st rq)) = documents st @ [d])"
proof (cases rq)
  case (POST_upload f pn)
  then show ?thesis
    using upload_file_documents [of env st f pn] by (auto simp add: handle_def)
next
  case (GET_document seg)
  then show ?thesis by (simp add: handle_def get_document_documents)
qed

lemma handle_prefix: "prefix (documents st) (documents (snd (handle env st rq)))"
  using handle_documents [of env st rq] by auto

lemma handle_distinct:
  "distinct (map part_number (documents st)) \<Longrightarrow>
   distinct (map part_number (documents (snd (handle env st rq))))"
  using handle_documents [of env st rq] by auto

lemma run_append: "run st (rs @ rs') = run (run st rs) rs'"
  by (induction st rs rule: run.induct) simp_all

lemma run_prefix: "prefix (documents st) (documents (run st rs))"
proof (induction st rs rule: run.induct)
  case (1 st)
  show ?case by simp
next
  case (2 st env rq rs)
  with handle_prefix [of st env rq] show ?case
    using prefix_order.order_trans by fastforce
qed

lemma run_distinct:
  "distinct (map part_number (documents st)) \<Longrightarrow>
   distinct (map part_number (documents (run st rs)))"
  by (induction st rs rule: run.induct) (simp_all add: handle_distinct)

text \<open>
  C8. Start from the empty service and run any sequence of uploads and lookups, each
  with any behaviour of the S3 client. In the state reached, no two records have the same
  part number. The table only grows at its end: the table reached after \<open>rs\<close> is a
  prefix of the table reached after any longer run \<open>rs @ rs'\<close>, so no record is changed
  or removed. And one more request either leaves the table as it is, or is an upload that
  answers success and adds one record.
\<close>

theorem part_number_unique_append_only:
  "distinct (map part_number (documents (run empty_state rs))) \<and>
   prefix (documents (run empty_state rs)) (documents (run empty_state (rs @ rs'))) \<and>
   (documents (snd (handle env (run empty_state rs) rq)) = documents (run empty_state rs) \<or>
    (\<exists>f p d. rq = POST_upload f (Some p) \<and>
       fst (handle env (run empty_state rs) rq) =
         Inr [(''message'', ''File uploaded successfully''), (''part_number'', p)] \<and>
       documents (snd (handle env (run empty_state rs) rq)) =
         documents (run empty_state rs) @ [d]))"
proof -
  have "distinct (map part_number (documents (run empty_state rs)))"
    by (rule run_distinct) (simp add: empty_state_def)
  moreover have
    "prefix (documents (run empty_state rs)) (documents (run empty_state (rs @ rs')))"
    by (simp add: run_append run_prefix)
  moreover have
    "documents (snd (handle env (run empty_state rs) rq)) = documents (run empty_state rs) \<or>
     (\<exists>f p d. rq = POST_upload f (Some p) \<and>
        fst (handle env (run empty_state rs) rq) =
          Inr [(''message'', ''File uploaded successfully''), (''part_number'', p)] \<and>
        documents (snd (handle env (run empty_state rs) rq)) =
          documents (run empty_state rs) @ [d])"
    using handle_documents [of env "run empty_state rs" rq] by blast
  ultimately show ?thesis by blast
qed

end
